theory Spec2Isabelle
  imports Main "HOL-Library.AList" "HOL-Library.Signed_Division" "HOL-Library.Multiset"
begin

section \<open>Data model of server/index.ts\<close>

text \<open>
  JavaScript numbers are modelled as \<open>int\<close>: every number the server computes with is a
  counter, an index or a millisecond count far below \<open>2^53\<close>, where doubles are exact.
  \<open>undefined\<close> and \<open>null\<close> are \<open>None\<close>.

  An entry of \<open>UserData.answers\<close> is \<open>{ correct: boolean; date: string }\<close>.
\<close>

record Answer =
  correct_a :: bool
  date_a :: string

text \<open>
  \<open>interface UserData\<close>. \<open>answers\<close> is an object keyed by day strings; such keys
  are enumerated in insertion order, so it is an association list.
\<close>

record UserData =
  fid :: int
  username :: "string option"
  currentStreak :: int
  longestStreak :: int
  lastPlayed :: "string option"
  lastCorrect :: bool
  totalPlayed :: int
  totalCorrect :: int
  answers :: "(string \<times> Answer) list"

text \<open>
  \<open>interface UsersDB\<close>: the object \<open>users\<close>, keyed by \<open>String(fid)\<close>. The key is kept
  as the integer it prints; the list is in the order in which \<open>Object.values\<close> enumerates
  the object.
\<close>

type_synonym UsersDB = "(int \<times> UserData) list"

text \<open>
  The store is the file \<open>data/users.json\<close>: \<open>None\<close> when the file does not exist or does
  not parse, otherwise the database it holds.
\<close>

type_synonym Store = "UsersDB option"

text \<open>\<open>Partial<UserData>\<close>: every field may be absent; a present \<open>username\<close> may be \<open>undefined\<close>.\<close>

record UserPatch =
  fid_p :: "int option"
  username_p :: "string option option"
  currentStreak_p :: "int option"
  longestStreak_p :: "int option"
  lastPlayed_p :: "string option option"
  lastCorrect_p :: "bool option"
  totalPlayed_p :: "int option"
  totalCorrect_p :: "int option"
  answers_p :: "(string \<times> Answer) list option"

text \<open>\<open>interface Question\<close>, an entry of the catalog \<open>questions.json\<close>.\<close>

record Question =
  id_q :: int
  question :: string
  options :: "string list"
  correct :: int
  category :: string
  funFact :: string

text \<open>
  What the server reads from a \<open>new Date()\<close>: the local calendar fields returned by
  \<open>getFullYear()\<close>, \<open>getMonth()\<close> (0 to 11) and \<open>getDate()\<close>, the local wall-clock time
  of day in milliseconds, and the host zone's offset from UTC (local minus UTC, in
  milliseconds) at three instants: now, at local midnight of 31 December of the previous
  year (the instant \<open>new Date(year, 0, 0)\<close> denotes), and at the same wall-clock time on
  the previous local day (the instant \<open>setDate(getDate() - 1)\<close> moves to). One reading
  serves the whole request; the handler's calls of \<open>new Date()\<close> are taken at one instant.
\<close>

record Clock =
  getFullYear :: int
  getMonth :: int
  getDate :: int
  msOfDay :: int
  utcOffset :: int
  utcOffsetYearStart :: int
  utcOffsetYesterday :: int

text \<open>
  The environment of one request: the imported catalog and the reading of \<open>new Date()\<close>.
\<close>

record Env =
  questions :: "Question list"
  clock :: Clock

text \<open>The JSON body of \<open>POST /api/answer\<close>; an absent field is \<open>None\<close>.\<close>

record Body =
  fid_b :: "int option"
  username_b :: "string option"
  answerIndex :: "int option"

text \<open>An entry of the leaderboard: \<open>{ fid, username, streak, total }\<close>.\<close>

record Entry =
  fid_e :: int
  username_e :: "string option"
  streak :: int
  total :: int

text \<open>The responses of \<open>GET /api/user/:fid\<close>.\<close>

datatype UserResponse =
    InvalidFID
  | UserOk UserData bool "Answer option" "Question option" int

text \<open>
  The responses of \<open>POST /api/answer\<close>: the two 400 responses, the success response
  \<open>{ isCorrect, correctAnswer, user, funFact }\<close>, and the 500 response of the framework
  when the handler throws.
\<close>

datatype AnswerResponse =
    MissingFields
  | AlreadyPlayed UserData "Answer option"
  | Success bool int UserData string
  | InternalError

section \<open>The user store\<close>

definition loadUsers :: "Store \<Rightarrow> UsersDB" where
  "loadUsers s = (case s of Some db \<Rightarrow> db | None \<Rightarrow> [])"

definition saveUsers :: "UsersDB \<Rightarrow> Store \<Rightarrow> Store" where
  "saveUsers db s = Some db"

text \<open>
  Property assignment \<open>db.users[key] = v\<close>. An existing key keeps its place. A new key
  that is an array index (0 to \<open>2^32 - 2\<close>) goes among the array indices in ascending
  order, which an object enumerates first; any other new key goes last.
\<close>

definition is_array_index :: "int \<Rightarrow> bool" where
  "is_array_index k \<longleftrightarrow> 0 \<le> k \<and> k < 4294967295"

fun insert_key :: "int \<Rightarrow> UserData \<Rightarrow> UsersDB \<Rightarrow> UsersDB" where
  "insert_key k v [] = [(k, v)]"
| "insert_key k v ((k', v') # rest) =
     (if is_array_index k \<and> (\<not> is_array_index k' \<or> k < k')
      then (k, v) # (k', v') # rest
      else (k', v') # insert_key k v rest)"

definition set_key :: "int \<Rightarrow> UserData \<Rightarrow> UsersDB \<Rightarrow> UsersDB" where
  "set_key k v db =
     (if map_of db k = None then insert_key k v db
      else map (\<lambda>(k', v'). if k' = k then (k', v) else (k', v')) db)"

text \<open>The record literal \<open>getUser\<close> stores for an unknown id.\<close>

definition new_user :: "int \<Rightarrow> UserData" where
  "new_user f = \<lparr> fid = f, username = None, currentStreak = 0, longestStreak = 0,
     lastPlayed = None, lastCorrect = False, totalPlayed = 0, totalCorrect = 0,
     answers = [] \<rparr>"

definition getUser :: "int \<Rightarrow> Store \<Rightarrow> UserData \<times> Store" where
  "getUser f s =
     (let db = loadUsers s in
      case map_of db f of
        None \<Rightarrow> (new_user f, saveUsers (set_key f (new_user f) db) s)
      | Some u \<Rightarrow> (u, s))"

text \<open>The object spread \<open>{ ...u, ...data }\<close>: a field present in \<open>data\<close> wins.\<close>

definition spread :: "UserData \<Rightarrow> UserPatch \<Rightarrow> UserData" where
  "spread u p = \<lparr>
     fid = (case fid_p p of None \<Rightarrow> fid u | Some x \<Rightarrow> x),
     username = (case username_p p of None \<Rightarrow> username u | Some x \<Rightarrow> x),
     currentStreak = (case currentStreak_p p of None \<Rightarrow> currentStreak u | Some x \<Rightarrow> x),
     longestStreak = (case longestStreak_p p of None \<Rightarrow> longestStreak u | Some x \<Rightarrow> x),
     lastPlayed = (case lastPlayed_p p of None \<Rightarrow> lastPlayed u | Some x \<Rightarrow> x),
     lastCorrect = (case lastCorrect_p p of None \<Rightarrow> lastCorrect u | Some x \<Rightarrow> x),
     totalPlayed = (case totalPlayed_p p of None \<Rightarrow> totalPlayed u | Some x \<Rightarrow> x),
     totalCorrect = (case totalCorrect_p p of None \<Rightarrow> totalCorrect u | Some x \<Rightarrow> x),
     answers = (case answers_p p of None \<Rightarrow> answers u | Some x \<Rightarrow> x) \<rparr>"

text \<open>
  \<open>updateUser\<close> loads the database, calls \<open>getUser\<close> (which may save a new record), then
  writes the database it loaded first with the merged record under the key.
\<close>

definition updateUser :: "int \<Rightarrow> UserPatch \<Rightarrow> Store \<Rightarrow> UserData \<times> Store" where
  "updateUser f data s =
     (let db = loadUsers s;
          (u, s1) = getUser f s;
          db' = set_key f (spread u data) db
      in (spread u data, saveUsers db' s1))"

section \<open>Question of the day and question number\<close>

text \<open>
  \<open>seed % questions.length\<close> is the truncating remainder. With an empty catalog it is
  \<open>NaN\<close>, and with a negative remainder the index is negative: \<open>questions[index]\<close> is
  \<open>undefined\<close> in both cases.
\<close>

definition seed :: "Clock \<Rightarrow> int" where
  "seed today = getFullYear today * 10000 + (getMonth today + 1) * 100 + getDate today"

definition getTodaysQuestion :: "Question list \<Rightarrow> Clock \<Rightarrow> Question option" where
  "getTodaysQuestion qs today =
     (if qs = [] then None
      else let index = seed today smod int (length qs)
           in if 0 \<le> index \<and> index < int (length qs) then Some (qs ! nat index) else None)"

text \<open>
  The day arithmetic of the Date object (ECMAScript, Day Number and Time within Day):
  \<open>DayFromYear\<close> is the day number of 1 January, \<open>MakeDay y m d\<close> the day number of the
  date with month \<open>m\<close> (0 to 11) and day \<open>d\<close>, so that \<open>MakeDay y 0 0\<close> is 31 December of
  the year before. The time value \<open>getTime()\<close> is the local time minus the zone offset.
\<close>

definition leap_year :: "int \<Rightarrow> bool" where
  "leap_year y \<longleftrightarrow> y mod 4 = 0 \<and> (y mod 100 \<noteq> 0 \<or> y mod 400 = 0)"

definition month_lengths :: "int \<Rightarrow> nat list" where
  "month_lengths y =
     [31, if leap_year y then 29 else 28, 31, 30, 31, 30, 31, 31, 30, 31, 30, 31]"

definition DayFromYear :: "int \<Rightarrow> int" where
  "DayFromYear y =
     365 * (y - 1970) + (y - 1969) div 4 - (y - 1901) div 100 + (y - 1601) div 400"

definition MakeDay :: "int \<Rightarrow> int \<Rightarrow> int \<Rightarrow> int" where
  "MakeDay y m d = DayFromYear y + int (sum_list (take (nat m) (month_lengths y))) + d - 1"

definition oneDay :: int where
  "oneDay = 1000 * 60 * 60 * 24"

definition getTime :: "Clock \<Rightarrow> int" where
  "getTime t = MakeDay (getFullYear t) (getMonth t) (getDate t) * oneDay + msOfDay t
               - utcOffset t"

text \<open>
  The date of a day number: the year, the month (1 to 12) and the day of the month, that
  is \<open>YearFromTime\<close>, \<open>MonthFromTime + 1\<close> and \<open>DateFromTime\<close> of the Date object. Day 0 is
  1 January 1970; the computation counts from 1 March 0000 in cycles of 400 years.
\<close>

definition civil_from_days :: "int \<Rightarrow> int \<times> int \<times> int" where
  "civil_from_days n =
     (let z = n + 719468;
          era = z div 146097;
          doe = z mod 146097;
          yoe = (doe - doe div 1460 + doe div 36524 - doe div 146096) div 365;
          doy = doe - (365 * yoe + yoe div 4 - yoe div 100);
          mp = (5 * doy + 2) div 153;
          d = doy - (153 * mp + 2) div 5 + 1;
          m = (if mp < 10 then mp + 3 else mp - 9);
          y = yoe + era * 400 + (if m \<le> 2 then 1 else 0)
      in (y, m, d))"

text \<open>Decimal digits, padded with zeros to two, four and six places.\<close>

definition digit :: "int \<Rightarrow> char" where
  "digit n = ''0123456789'' ! nat (n mod 10)"

definition pad2 :: "int \<Rightarrow> string" where
  "pad2 n = [digit (n div 10), digit n]"

definition pad4 :: "int \<Rightarrow> string" where
  "pad4 n = [digit (n div 1000), digit (n div 100), digit (n div 10), digit n]"

definition pad6 :: "int \<Rightarrow> string" where
  "pad6 n = [digit (n div 100000), digit (n div 10000), digit (n div 1000),
             digit (n div 100), digit (n div 10), digit n]"

text \<open>
  \<open>toISOString().split('T')[0]\<close> of a time value: the UTC date as \<open>YYYY-MM-DD\<close>; a year
  outside 0 to 9999 is written with a sign and six digits.
\<close>

definition year_string :: "int \<Rightarrow> string" where
  "year_string y =
     (if 0 \<le> y \<and> y \<le> 9999 then pad4 y
      else (if y < 0 then ''-'' else ''+'') @ pad6 \<bar>y\<bar>)"

definition toISODate :: "int \<Rightarrow> string" where
  "toISODate t =
     (let (y, m, d) = civil_from_days (t div oneDay)
      in year_string y @ ''-'' @ pad2 m @ ''-'' @ pad2 d)"

definition getTodayString :: "Clock \<Rightarrow> string" where
  "getTodayString now = toISODate (getTime now)"

text \<open>
  \<open>setDate(getDate() - 1)\<close> keeps the local year, month and time of day and takes the day
  of the month one lower (day 0 is the last day of the month before); the new time value
  is that local time minus the offset the host zone has there.
\<close>

definition getYesterdayString :: "Clock \<Rightarrow> string" where
  "getYesterdayString now =
     toISODate (MakeDay (getFullYear now) (getMonth now) (getDate now - 1) * oneDay
                + msOfDay now - utcOffsetYesterday now)"

text \<open>
  The constructor \<open>new Date(year, month, day)\<close> reads a year from 0 to 99 as a year of the
  twentieth century.
\<close>

definition two_digit_year :: "int \<Rightarrow> int" where
  "two_digit_year y = (if 0 \<le> y \<and> y \<le> 99 then 1900 + y else y)"

text \<open>
  \<open>Math.floor(diff / oneDay)\<close>: the quotient of two integers below \<open>2^53\<close>, rounded down,
  is integer division.
\<close>

definition getQuestionNumber :: "Clock \<Rightarrow> int" where
  "getQuestionNumber today =
     (let start = MakeDay (two_digit_year (getFullYear today)) 0 0 * oneDay
                  - utcOffsetYearStart today;
          diff = getTime today - start
      in diff div oneDay)"

section \<open>Leaderboard\<close>

text \<open>The comparator \<open>b.longestStreak - a.longestStreak || b.totalCorrect - a.totalCorrect\<close>.\<close>

definition compareFn :: "UserData \<Rightarrow> UserData \<Rightarrow> int" where
  "compareFn a b =
     (if longestStreak b - longestStreak a \<noteq> 0 then longestStreak b - longestStreak a
      else totalCorrect b - totalCorrect a)"

text \<open>
  \<open>Array.prototype.sort\<close> is stable: an element stays before the elements it does not
  compare greater than. It is modelled as the stable insertion sort with the comparator.
\<close>

fun insert_sorted :: "UserData \<Rightarrow> UserData list \<Rightarrow> UserData list" where
  "insert_sorted x [] = [x]"
| "insert_sorted x (y # ys) =
     (if compareFn x y \<le> 0 then x # y # ys else y # insert_sorted x ys)"

fun sort_users :: "UserData list \<Rightarrow> UserData list" where
  "sort_users [] = []"
| "sort_users (x # xs) = insert_sorted x (sort_users xs)"

text \<open>
  \<open>xs.slice(0, end)\<close>: a negative \<open>end\<close> counts from the end of the array, and the result
  is clamped to the array.
\<close>

definition slice0 :: "'a list \<Rightarrow> int \<Rightarrow> 'a list" where
  "slice0 xs e =
     (let len = int (length xs);
          final = (if e < 0 then max (len + e) 0 else min e len)
      in take (nat final) xs)"

definition to_entry :: "UserData \<Rightarrow> Entry" where
  "to_entry u = \<lparr> fid_e = fid u, username_e = username u, streak = longestStreak u,
     total = totalCorrect u \<rparr>"

definition getLeaderboard :: "int \<Rightarrow> Store \<Rightarrow> Entry list" where
  "getLeaderboard limit s =
     (let db = loadUsers s
      in map to_entry (slice0 (sort_users (map snd db)) limit))"

section \<open>The endpoints\<close>

text \<open>
  \<open>GET /api/user/:fid\<close>, given the result of \<open>parseInt\<close> (\<open>None\<close> for \<open>NaN\<close>). An
  \<open>undefined\<close> question is left out of the JSON response.
\<close>

definition get_api_user :: "Env \<Rightarrow> int option \<Rightarrow> Store \<Rightarrow> UserResponse \<times> Store" where
  "get_api_user env f s =
     (case f of
        None \<Rightarrow> (InvalidFID, s)
      | Some n \<Rightarrow>
          (let (user, s1) = getUser n s;
               today = getTodayString (clock env);
               hasPlayedToday = (lastPlayed user = Some today)
           in (UserOk user hasPlayedToday
                 (if hasPlayedToday then map_of (answers user) today else None)
                 (getTodaysQuestion (questions env) (clock env))
                 (getQuestionNumber (clock env)), s1)))"

text \<open>\<open>GET /api/leaderboard\<close>.\<close>

definition get_api_leaderboard :: "Store \<Rightarrow> Entry list" where
  "get_api_leaderboard s = getLeaderboard 20 s"

text \<open>
  \<open>username || user.username\<close>: an absent or empty name is falsy.
\<close>

definition or_username :: "string option \<Rightarrow> string option \<Rightarrow> string option" where
  "or_username a b = (case a of None \<Rightarrow> b | Some n \<Rightarrow> if n = [] then b else Some n)"

text \<open>
  \<open>POST /api/answer\<close>. \<open>!fid\<close> holds of an absent \<open>fid\<close> and of 0. With an
  \<open>undefined\<close> question, reading \<open>question.correct\<close> throws after the record was loaded
  or created and after the already-played check.
\<close>

definition post_api_answer :: "Env \<Rightarrow> Body \<Rightarrow> Store \<Rightarrow> AnswerResponse \<times> Store" where
  "post_api_answer env body s =
     (case (fid_b body, answerIndex body) of
        (None, _) \<Rightarrow> (MissingFields, s)
      | (Some f, None) \<Rightarrow> (MissingFields, s)
      | (Some f, Some idx) \<Rightarrow>
          if f = 0 then (MissingFields, s)
          else
            let (user, s1) = getUser f s;
                today = getTodayString (clock env);
                yesterday = getYesterdayString (clock env)
            in if lastPlayed user = Some today
               then (AlreadyPlayed user (map_of (answers user) today), s1)
               else
                 (case getTodaysQuestion (questions env) (clock env) of
                    None \<Rightarrow> (InternalError, s1)
                  | Some q \<Rightarrow>
                      let isCorrect = (idx = correct q);
                          newStreak =
                            (if isCorrect
                             then (if lastPlayed user = Some yesterday \<and> lastCorrect user
                                   then currentStreak user + 1 else 1)
                             else 0);
                          (updatedUser, s2) = updateUser f \<lparr>
                            fid_p = None,
                            username_p = Some (or_username (username_b body) (username user)),
                            currentStreak_p = Some newStreak,
                            longestStreak_p = Some (max newStreak (longestStreak user)),
                            lastPlayed_p = Some (Some today),
                            lastCorrect_p = Some isCorrect,
                            totalPlayed_p = Some (totalPlayed user + 1),
                            totalCorrect_p = Some (totalCorrect user + (if isCorrect then 1 else 0)),
                            answers_p = Some (AList.update today
                              \<lparr> correct_a = isCorrect, date_a = today \<rparr> (answers user)) \<rparr> s1
                      in (Success isCorrect (correct q) updatedUser (funFact q), s2)))"

section \<open>Predicates of the specification\<close>

text \<open>
  The record invariant of the data model. \<open>recent\<close> is the day key of the user's most
  recent scored submission, \<open>None\<close> when the user never had one.
\<close>

definition record_ok :: "string option \<Rightarrow> UserData \<Rightarrow> bool" where
  "record_ok recent u \<longleftrightarrow>
     currentStreak u \<le> longestStreak u \<and> totalCorrect u \<le> totalPlayed u
     \<and> (0 < currentStreak u \<longrightarrow> lastCorrect u \<and> lastPlayed u = recent)"

text \<open>Every stored record satisfies the invariant; \<open>recent k\<close> belongs to the user under key \<open>k\<close>.\<close>

definition store_ok :: "(int \<Rightarrow> string option) \<Rightarrow> Store \<Rightarrow> bool" where
  "store_ok recent s \<longleftrightarrow> (\<forall>(k, u) \<in> set (loadUsers s). record_ok (recent k) u)"

text \<open>
  How one request to \<open>POST /api/answer\<close> changes the most recent scored days: a success
  response makes today the submitting user's most recent scored day, any other response
  changes nothing.
\<close>

definition scored_days ::
  "Env \<Rightarrow> Body \<Rightarrow> AnswerResponse \<Rightarrow> (int \<Rightarrow> string option) \<Rightarrow> int \<Rightarrow> string option" where
  "scored_days env body resp recent =
     (case (resp, fid_b body) of
        (Success c a u t, Some f) \<Rightarrow> recent(f := Some (getTodayString (clock env)))
      | _ \<Rightarrow> recent)"

text \<open>A reading of the clock whose local fields are a date of the Gregorian calendar.\<close>

definition calendar_date :: "Clock \<Rightarrow> bool" where
  "calendar_date t \<longleftrightarrow>
     0 \<le> getFullYear t \<and> 0 \<le> getMonth t \<and> getMonth t < 12 \<and> 1 \<le> getDate t
     \<and> getDate t \<le> int (month_lengths (getFullYear t) ! nat (getMonth t))"

text \<open>The order of the ranking on leaderboard entries: a higher streak first, then a higher total.\<close>

definition ranks_before :: "Entry \<Rightarrow> Entry \<Rightarrow> bool" where
  "ranks_before a b \<longleftrightarrow> streak b < streak a \<or> (streak a = streak b \<and> total b \<le> total a)"

text \<open>The 1-based day of the year of the local date of a clock reading.\<close>

definition day_of_year :: "Clock \<Rightarrow> int" where
  "day_of_year t =
     int (sum_list (take (nat (getMonth t)) (month_lengths (getFullYear t)))) + getDate t"

section \<open>Example data\<close>

definition example_question :: Question where
  "example_question = \<lparr> id_q = 1, question = ''Which chain?'',
     options = [''a'', ''b'', ''c'', ''d''], correct = 2, category = ''History'',
     funFact = ''fact'' \<rparr>"

definition example_catalog :: "Question list" where
  "example_catalog = [example_question, example_question \<lparr> id_q := 2 \<rparr>,
     example_question \<lparr> id_q := 3 \<rparr>]"

text \<open>1 July 2024, 00:30, on a host in UTC.\<close>

definition example_clock :: Clock where
  "example_clock = \<lparr> getFullYear = 2024, getMonth = 6, getDate = 1, msOfDay = 1800000,
     utcOffset = 0, utcOffsetYearStart = 0, utcOffsetYesterday = 0 \<rparr>"

definition example_env :: Env where
  "example_env = \<lparr> questions = [example_question], clock = example_clock \<rparr>"

definition example_user :: UserData where
  "example_user = \<lparr> fid = 7, username = Some ''ann'', currentStreak = 3, longestStreak = 5,
     lastPlayed = Some ''2024-06-30'', lastCorrect = True, totalPlayed = 10,
     totalCorrect = 8,
     answers = [(''2024-06-30'', \<lparr> correct_a = True, date_a = ''2024-06-30'' \<rparr>)] \<rparr>"

definition example_store :: Store where
  "example_store = Some [(7, example_user)]"

definition example_body :: "int \<Rightarrow> Body" where
  "example_body idx = \<lparr> fid_b = Some 7, username_b = None, answerIndex = Some idx \<rparr>"

text \<open>The record of \<open>example_user\<close> after a wrong answer on 1 July 2024.\<close>

definition example_user_missed :: UserData where
  "example_user_missed = \<lparr> fid = 7, username = Some ''ann'', currentStreak = 0,
     longestStreak = 5, lastPlayed = Some ''2024-07-01'', lastCorrect = False,
     totalPlayed = 11, totalCorrect = 8,
     answers = [(''2024-06-30'', \<lparr> correct_a = True, date_a = ''2024-06-30'' \<rparr>),
                (''2024-07-01'', \<lparr> correct_a = False, date_a = ''2024-07-01'' \<rparr>)] \<rparr>"

definition example_recent :: "int \<Rightarrow> string option" where
  "example_recent k = (if k = 7 then Some ''2024-06-30'' else None)"

text \<open>A user with longest streak \<open>l\<close> and \<open>t\<close> correct answers.\<close>

definition board_user :: "int \<Rightarrow> int \<Rightarrow> int \<Rightarrow> UserData" where
  "board_user f l t = (new_user f) \<lparr> longestStreak := l, totalCorrect := t \<rparr>"

definition example_board :: Store where
  "example_board = Some [(1, board_user 1 5 10), (2, board_user 2 5 12), (3, board_user 3 3 20)]"

text \<open>A store with one user, who played once and answered wrongly.\<close>

definition example_played_store :: Store where
  "example_played_store = Some [(9, (new_user 9) \<lparr> lastPlayed := Some ''2024-06-30'',
     totalPlayed := 1,
     answers := [(''2024-06-30'', \<lparr> correct_a = False, date_a = ''2024-06-30'' \<rparr>)] \<rparr>)]"

text \<open>
  Two readings of the clock on a host in the zone America/New\_York, where the offset is
  \<open>-5\<close> hours at the start of the year and \<open>-4\<close> hours in summer: 1 July 2024, 00:30, and
  30 June 2024, 23:30.
\<close>

definition new_york_july_1 :: Clock where
  "new_york_july_1 = \<lparr> getFullYear = 2024, getMonth = 6, getDate = 1, msOfDay = 1800000,
     utcOffset = - 14400000, utcOffsetYearStart = - 18000000,
     utcOffsetYesterday = - 14400000 \<rparr>"

definition new_york_june_30 :: Clock where
  "new_york_june_30 = \<lparr> getFullYear = 2024, getMonth = 5, getDate = 30, msOfDay = 84600000,
     utcOffset = - 14400000, utcOffsetYearStart = - 18000000,
     utcOffsetYesterday = - 14400000 \<rparr>"

text \<open>
  A reading of the clock on a host in New York on 3 November 2024 at 19:30, the day the
  zone went back from \<open>-4\<close> to \<open>-5\<close> hours: the same wall-clock time on the day before
  was at \<open>-4\<close> hours.
\<close>

definition new_york_nov_3 :: Clock where
  "new_york_nov_3 = \<lparr> getFullYear = 2024, getMonth = 10, getDate = 3, msOfDay = 70200000,
     utcOffset = - 18000000, utcOffsetYearStart = - 18000000,
     utcOffsetYesterday = - 14400000 \<rparr>"

definition nov_env :: Env where
  "nov_env = \<lparr> questions = [example_question], clock = new_york_nov_3 \<rparr>"

text \<open>A user on a streak of 3 whose last game, on day key \<open>d\<close>, was answered correctly.\<close>

definition streak_user :: "string \<Rightarrow> UserData" where
  "streak_user d = \<lparr> fid = 7, username = Some ''ann'', currentStreak = 3, longestStreak = 5,
     lastPlayed = Some d, lastCorrect = True, totalPlayed = 10, totalCorrect = 8,
     answers = [(d, \<lparr> correct_a = True, date_a = d \<rparr>)] \<rparr>"

section \<open>The store\<close>

lemma map_of_insert_key:
  "map_of db k = None \<Longrightarrow> map_of (insert_key k v db) = (map_of db)(k \<mapsto> v)"
proof (induction db)
  case Nil
  then show ?case by simp
next
  case (Cons p db)
  obtain k' v' where p: "p = (k', v')" by (cases p)
  from Cons.prems p have ne: "k' \<noteq> k" and none: "map_of db k = None"
    by (auto split: if_splits)
  show ?case using Cons.IH [OF none] ne p by (auto simp: fun_upd_twist)
qed

lemma map_of_replace_key:
  "map_of (map (\<lambda>(k', v'). if k' = k then (k', v) else (k', v')) db) x =
     (if x = k then (if map_of db k = None then None else Some v) else map_of db x)"
  by (induction db) auto

lemma map_of_set_key: "map_of (set_key k v db) = (map_of db)(k \<mapsto> v)"
  by (auto simp: set_key_def map_of_insert_key map_of_replace_key fun_eq_iff)

lemma set_insert_key: "set (insert_key k v db) = insert (k, v) (set db)"
  by (induction db) (auto split: if_splits)

lemma set_set_key:
  "set (set_key k v db) \<subseteq> insert (k, v) {p \<in> set db. fst p \<noteq> k}"
proof (cases "map_of db k = None")
  case True
  then have "k \<notin> fst ` set db" by (simp add: map_of_eq_None_iff)
  then have "set db = {p \<in> set db. fst p \<noteq> k}" by force
  with True show ?thesis by (auto simp: set_key_def set_insert_key)
next
  case False
  then show ?thesis by (auto simp: set_key_def split: if_splits)
qed

lemma length_insert_key: "length (insert_key k v db) = Suc (length db)"
  by (induction db) auto

lemma getUser_stored:
  "getUser f s = (user, s1) \<Longrightarrow> map_of (loadUsers s1) f = Some user"
  by (auto simp: getUser_def Let_def loadUsers_def saveUsers_def map_of_set_key
      split: option.splits)

lemma getUser_again:
  "getUser f s = (user, s1) \<Longrightarrow> getUser f s1 = (user, s1)"
  using getUser_stored [of f s user s1] by (simp add: getUser_def Let_def)

section \<open>A scored submission\<close>

text \<open>
  The result of \<open>POST /api/answer\<close> for a request that passes the presence check, from a
  user who has not played today, when the catalog yields a question: the response and
  every field of the record that is stored.
\<close>

lemma post_scored:
  assumes "fid_b body = Some f" and "f \<noteq> 0" and "answerIndex body = Some idx"
    and "getUser f s = (user, s1)"
    and "lastPlayed user \<noteq> Some (getTodayString (clock env))"
    and "getTodaysQuestion (questions env) (clock env) = Some q"
  shows "\<exists>u'. post_api_answer env body s =
           (Success (idx = correct q) (correct q) u' (funFact q),
            Some (set_key f u' (loadUsers s1)))
         \<and> fid u' = fid user
         \<and> username u' = or_username (username_b body) (username user)
         \<and> currentStreak u' =
             (if idx = correct q
              then (if lastPlayed user = Some (getYesterdayString (clock env)) \<and> lastCorrect user
                    then currentStreak user + 1 else 1)
              else 0)
         \<and> longestStreak u' = max (currentStreak u') (longestStreak user)
         \<and> lastPlayed u' = Some (getTodayString (clock env))
         \<and> lastCorrect u' = (idx = correct q)
         \<and> totalPlayed u' = totalPlayed user + 1
         \<and> totalCorrect u' = totalCorrect user + (if idx = correct q then 1 else 0)
         \<and> answers u' = AList.update (getTodayString (clock env))
              \<lparr> correct_a = (idx = correct q), date_a = getTodayString (clock env) \<rparr> (answers user)"
  using assms getUser_again [OF assms(4)]
  by (simp add: post_api_answer_def updateUser_def Let_def spread_def saveUsers_def)

lemma example_getUser: "getUser 7 example_store = (example_user, example_store)"
  by (simp add: getUser_def loadUsers_def example_store_def)

lemma example_today: "getTodayString (clock example_env) = ''2024-07-01''"
  by code_simp

lemma example_yesterday: "getYesterdayString (clock example_env) = ''2024-06-30''"
  by code_simp

lemmas example_defs = example_question_def example_user_def example_store_def
  example_body_def example_today example_yesterday

lemma example_getTodaysQuestion:
  "getTodaysQuestion (questions example_env) (clock example_env) = Some example_question"
  by (simp add: getTodaysQuestion_def seed_def example_env_def example_clock_def
      signed_modulo_int_def)

lemma example_post_miss:
  "post_api_answer example_env (example_body 9) example_store
     = (Success False 2 example_user_missed ''fact'', Some [(7, example_user_missed)])"
  by (simp add: post_api_answer_def getUser_def updateUser_def example_getTodaysQuestion
        Let_def spread_def saveUsers_def loadUsers_def set_key_def or_username_def
        example_defs example_user_missed_def)

text \<open>
  The streak a scored submission writes, in terms of the string \<open>getYesterdayString\<close>
  returns: the old streak plus 1 when the answer is correct, the record was last played
  on that string and its last answer was correct; 1 for any other correct answer; 0 for a
  wrong answer. The record is the one \<open>getUser\<close> returns, and the new record is the one
  stored under the user's key.
\<close>

lemma streak_formula:
  assumes "fid_b body = Some f" and "f \<noteq> 0" and "answerIndex body = Some idx"
    and "getUser f s = (user, s1)"
    and "lastPlayed user \<noteq> Some (getTodayString (clock env))"
    and "getTodaysQuestion (questions env) (clock env) = Some q"
  shows "\<exists>u' s2. post_api_answer env body s
             = (Success (idx = correct q) (correct q) u' (funFact q), s2)
         \<and> map_of (loadUsers s2) f = Some u'
         \<and> currentStreak u' =
             (if idx = correct q \<and> lastPlayed user = Some (getYesterdayString (clock env))
                 \<and> lastCorrect user
              then currentStreak user + 1
              else if idx = correct q then 1 else 0)"
proof -
  from post_scored [OF assms] obtain u' where
    run: "post_api_answer env body s =
           (Success (idx = correct q) (correct q) u' (funFact q),
            Some (set_key f u' (loadUsers s1)))"
    and cs: "currentStreak u' =
             (if idx = correct q
              then (if lastPlayed user = Some (getYesterdayString (clock env))
                       \<and> lastCorrect user
                    then currentStreak user + 1 else 1)
              else 0)"
    by blast
  have "map_of (loadUsers (Some (set_key f u' (loadUsers s1)))) f = Some u'"
    by (simp add: loadUsers_def map_of_set_key)
  with run cs show ?thesis by auto
qed

text \<open>
  On a host whose offset from UTC is the same now as at this time on the previous local
  day, the string of \<open>getYesterdayString\<close> is the UTC date 24 hours before now, the day
  key before today's.
\<close>

lemma yesterday_constant_offset:
  assumes "utcOffsetYesterday t = utcOffset t"
  shows "getYesterdayString t = toISODate (getTime t - oneDay)"
  using assms by (simp add: getYesterdayString_def getTime_def MakeDay_def algebra_simps)

lemma nov_today: "getTodayString (clock nov_env) = ''2024-11-04''"
  by code_simp

lemma nov_yesterday: "getYesterdayString (clock nov_env) = ''2024-11-02''"
  by code_simp

lemma nov_day_before: "toISODate (getTime (clock nov_env) - oneDay) = ''2024-11-03''"
  by code_simp

lemma nov_getTodaysQuestion:
  "getTodaysQuestion (questions nov_env) (clock nov_env) = Some example_question"
  by (simp add: getTodaysQuestion_def seed_def nov_env_def new_york_nov_3_def
      signed_modulo_int_def)

text \<open>
  C1: the streak is meant to go on only from the day key before today's, and a correct
  answer after a missed day is meant to start at 1; the code misses this on a host with
  daylight saving time. In New York on 3 November 2024 at 19:30 today's key is
  \<open>2024-11-04\<close> (the UTC date), while \<open>setDate(getDate() - 1)\<close> goes 25 hours back and
  yesterday's key is \<open>2024-11-02\<close>, not \<open>2024-11-03\<close>, the UTC date 24 hours before
  now. A user on a streak of 3 who last played, correctly, on
  \<open>2024-11-02\<close> and missed \<open>2024-11-03\<close> gets the streak 4 for a correct answer; a user
  who last played, correctly, on \<open>2024-11-03\<close>, the day key before today's, gets the
  streak 1.
\<close>

theorem streak_dst:
  "getTodayString (clock nov_env) = ''2024-11-04''
   \<and> getYesterdayString (clock nov_env) = ''2024-11-02''
   \<and> toISODate (getTime (clock nov_env) - oneDay) = ''2024-11-03''
   \<and> post_api_answer nov_env (example_body 2) (Some [(7, streak_user ''2024-11-02'')])
       = (Success True 2
            \<lparr> fid = 7, username = Some ''ann'', currentStreak = 4, longestStreak = 5,
              lastPlayed = Some ''2024-11-04'', lastCorrect = True, totalPlayed = 11,
              totalCorrect = 9,
              answers = [(''2024-11-02'', \<lparr> correct_a = True, date_a = ''2024-11-02'' \<rparr>),
                         (''2024-11-04'', \<lparr> correct_a = True, date_a = ''2024-11-04'' \<rparr>)] \<rparr>
            ''fact'',
          Some [(7,
            \<lparr> fid = 7, username = Some ''ann'', currentStreak = 4, longestStreak = 5,
              lastPlayed = Some ''2024-11-04'', lastCorrect = True, totalPlayed = 11,
              totalCorrect = 9,
              answers = [(''2024-11-02'', \<lparr> correct_a = True, date_a = ''2024-11-02'' \<rparr>),
                         (''2024-11-04'', \<lparr> correct_a = True, date_a = ''2024-11-04'' \<rparr>)] \<rparr>)])
   \<and> post_api_answer nov_env (example_body 2) (Some [(7, streak_user ''2024-11-03'')])
       = (Success True 2
            \<lparr> fid = 7, username = Some ''ann'', currentStreak = 1, longestStreak = 5,
              lastPlayed = Some ''2024-11-04'', lastCorrect = True, totalPlayed = 11,
              totalCorrect = 9,
              answers = [(''2024-11-03'', \<lparr> correct_a = True, date_a = ''2024-11-03'' \<rparr>),
                         (''2024-11-04'', \<lparr> correct_a = True, date_a = ''2024-11-04'' \<rparr>)] \<rparr>
            ''fact'',
          Some [(7,
            \<lparr> fid = 7, username = Some ''ann'', currentStreak = 1, longestStreak = 5,
              lastPlayed = Some ''2024-11-04'', lastCorrect = True, totalPlayed = 11,
              totalCorrect = 9,
              answers = [(''2024-11-03'', \<lparr> correct_a = True, date_a = ''2024-11-03'' \<rparr>),
                         (''2024-11-04'', \<lparr> correct_a = True, date_a = ''2024-11-04'' \<rparr>)] \<rparr>)])"
  by (simp add: post_api_answer_def getUser_def updateUser_def nov_getTodaysQuestion
        nov_today nov_yesterday nov_day_before Let_def spread_def saveUsers_def
        loadUsers_def set_key_def or_username_def example_question_def example_body_def
        streak_user_def)

section \<open>A second submission on the same day\<close>

text \<open>
  C2: when the stored record of the submitting user has today's day key as its last played
  day, a request that passes the presence check is answered with the already-played
  error, which carries the record as stored and the answer stored for today, and the store
  is exactly what it was.
\<close>

theorem already_played_rejected:
  assumes "fid_b body = Some f" and "f \<noteq> 0" and "answerIndex body = Some idx"
    and "map_of (loadUsers s) f = Some user"
    and "lastPlayed user = Some (getTodayString (clock env))"
  shows "post_api_answer env body s
           = (AlreadyPlayed user (map_of (answers user) (getTodayString (clock env))), s)"
  using assms by (simp add: post_api_answer_def getUser_def Let_def)

theorem already_played_rejected_witness:
  "fid_b (example_body 2) = Some 7 \<and> (7::int) \<noteq> 0 \<and> answerIndex (example_body 2) = Some 2
   \<and> map_of (loadUsers (Some [(7, example_user_missed)])) 7 = Some example_user_missed
   \<and> lastPlayed example_user_missed = Some (getTodayString (clock example_env))
   \<and> post_api_answer example_env (example_body 2) (Some [(7, example_user_missed)])
       = (AlreadyPlayed example_user_missed
            (Some \<lparr> correct_a = False, date_a = ''2024-07-01'' \<rparr>),
          Some [(7, example_user_missed)])"
proof -
  have h: "fid_b (example_body 2) = Some 7" "(7::int) \<noteq> 0"
    "answerIndex (example_body 2) = Some 2"
    "map_of (loadUsers (Some [(7, example_user_missed)])) 7 = Some example_user_missed"
    "lastPlayed example_user_missed = Some (getTodayString (clock example_env))"
    by (simp_all add: example_body_def loadUsers_def example_user_missed_def
        example_today example_yesterday)
  from already_played_rejected [OF h] h show ?thesis
    by (simp add: example_user_missed_def example_today example_yesterday)
qed

section \<open>The record invariant\<close>

lemma record_ok_new_user: "record_ok recent (new_user f)"
  by (simp add: record_ok_def new_user_def)

lemma store_ok_set_key:
  assumes "store_ok recent (Some db)" and "record_ok r v"
  shows "store_ok (recent(k := r)) (Some (set_key k v db))"
  unfolding store_ok_def loadUsers_def
proof (clarsimp, intro conjI impI)
  fix a b
  assume "(a, b) \<in> set (set_key k v db)"
  with set_set_key [of k v db] have c: "(a, b) = (k, v) \<or> ((a, b) \<in> set db \<and> a \<noteq> k)"
    by auto
  { assume "a = k" with c assms(2) show "record_ok r b" by auto }
  { assume "a \<noteq> k" with c assms(1) show "record_ok (recent a) b"
      by (auto simp: store_ok_def loadUsers_def) }
qed

lemma store_ok_getUser:
  assumes "store_ok recent s" and "getUser f s = (user, s1)"
  shows "store_ok recent s1 \<and> record_ok (recent f) user"
proof (cases "map_of (loadUsers s) f")
  case None
  with assms(2) have u: "user = new_user f"
    and s1: "s1 = Some (set_key f (new_user f) (loadUsers s))"
    by (auto simp: getUser_def Let_def saveUsers_def)
  from assms(1) have "store_ok recent (Some (loadUsers s))"
    by (simp add: store_ok_def loadUsers_def)
  from store_ok_set_key [OF this record_ok_new_user [of "recent f" f], of f]
  show ?thesis using u s1 by (simp add: record_ok_new_user)
next
  case (Some u)
  with assms(2) have "user = u" "s1 = s" by (auto simp: getUser_def Let_def)
  moreover from Some have "(f, u) \<in> set (loadUsers s)" by (rule map_of_SomeD)
  ultimately show ?thesis using assms(1) by (auto simp: store_ok_def)
qed

text \<open>
  C3: the predicate \<open>longestStreak \<ge> currentStreak\<close>, \<open>totalCorrect \<le> totalPlayed\<close>, and a
  positive \<open>currentStreak\<close> implies that the last answer was correct and that the last
  played day is the most recent scored day, holds of the record created for a new user,
  and when it holds of every stored record before a request to \<open>POST /api/answer\<close> it
  holds of every stored record after it, whatever the response is.
\<close>

theorem invariant_preserved:
  "record_ok recent0 (new_user f0)
   \<and> (store_ok recent s \<longrightarrow>
        store_ok (scored_days env body (fst (post_api_answer env body s)) recent)
          (snd (post_api_answer env body s)))"
proof (intro conjI impI)
  show "record_ok recent0 (new_user f0)" by (rule record_ok_new_user)
next
  assume ok: "store_ok recent s"
  let ?resp = "fst (post_api_answer env body s)"
  let ?s' = "snd (post_api_answer env body s)"
  show "store_ok (scored_days env body ?resp recent) ?s'"
  proof (cases "\<exists>f idx. fid_b body = Some f \<and> f \<noteq> 0 \<and> answerIndex body = Some idx")
    case False
    then have "post_api_answer env body s = (MissingFields, s)"
      by (auto simp: post_api_answer_def split: option.splits)
    with ok show ?thesis by (simp add: scored_days_def)
  next
    case True
    then obtain f idx where b: "fid_b body = Some f" "f \<noteq> 0" "answerIndex body = Some idx"
      by blast
    obtain user s1 where g: "getUser f s = (user, s1)" by (cases "getUser f s")
    from store_ok_getUser [OF ok g] have ok1: "store_ok recent s1"
      and oku: "record_ok (recent f) user" by simp_all
    show ?thesis
    proof (cases "lastPlayed user = Some (getTodayString (clock env))")
      case True
      with b g have "post_api_answer env body s =
          (AlreadyPlayed user (map_of (answers user) (getTodayString (clock env))), s1)"
        by (simp add: post_api_answer_def)
      with ok1 show ?thesis by (simp add: scored_days_def)
    next
      case notplayed: False
      show ?thesis
      proof (cases "getTodaysQuestion (questions env) (clock env)")
        case None
        with b g notplayed have "post_api_answer env body s = (InternalError, s1)"
          by (simp add: post_api_answer_def)
        with ok1 show ?thesis by (simp add: scored_days_def)
      next
        case (Some q)
        from post_scored [OF b g notplayed Some] obtain u' where
          run: "post_api_answer env body s =
             (Success (idx = correct q) (correct q) u' (funFact q),
              Some (set_key f u' (loadUsers s1)))"
          and flds: "currentStreak u' =
             (if idx = correct q
              then (if lastPlayed user = Some (getYesterdayString (clock env)) \<and> lastCorrect user
                    then currentStreak user + 1 else 1)
              else 0)"
            "longestStreak u' = max (currentStreak u') (longestStreak user)"
            "lastPlayed u' = Some (getTodayString (clock env))"
            "lastCorrect u' = (idx = correct q)"
            "totalPlayed u' = totalPlayed user + 1"
            "totalCorrect u' = totalCorrect user + (if idx = correct q then 1 else 0)"
          by blast
        from oku flds have new: "record_ok (Some (getTodayString (clock env))) u'"
          by (auto simp: record_ok_def split: if_splits)
        from ok1 have "store_ok recent (Some (loadUsers s1))"
          by (simp add: store_ok_def loadUsers_def)
        from store_ok_set_key [OF this new]
        show ?thesis using run b by (simp add: scored_days_def)
      qed
    qed
  qed
qed

theorem invariant_preserved_witness:
  "store_ok example_recent example_store
   \<and> record_ok None (new_user 7)
   \<and> store_ok
        (scored_days example_env (example_body 9)
          (fst (post_api_answer example_env (example_body 9) example_store)) example_recent)
        (snd (post_api_answer example_env (example_body 9) example_store))
   \<and> snd (post_api_answer example_env (example_body 9) example_store)
       = Some [(7, example_user_missed)]"
proof -
  have h: "store_ok example_recent example_store"
    by (simp add: store_ok_def example_recent_def example_store_def loadUsers_def
        record_ok_def example_user_def)
  from invariant_preserved [of None 7 example_recent example_store example_env
      "example_body 9"] h
  show ?thesis by (simp add: example_post_miss)
qed

section \<open>An answer index outside the options\<close>

text \<open>
  C4, as stated, fails: the handler never compares the answer index with the options. With
  four options and the index 9, the request of a user who has not played today is answered
  with a success response, and the stored record changes: one more game played, the
  streak at 0, and an entry for today in the answers.
\<close>

theorem out_of_range_counterexample:
  "int (length (options example_question)) \<le> 9
   \<and> post_api_answer example_env (example_body 9) example_store
       = (Success False 2 example_user_missed ''fact'', Some [(7, example_user_missed)])
   \<and> Some [(7, example_user_missed)] \<noteq> example_store
   \<and> map_of (answers example_user) ''2024-07-01'' = None
   \<and> map_of (answers example_user_missed) ''2024-07-01''
       = Some \<lparr> correct_a = False, date_a = ''2024-07-01'' \<rparr>"
  by (simp add: example_post_miss)
     (simp add: example_question_def example_store_def example_user_def
        example_user_missed_def)

text \<open>
  C4, amended: a submission whose answer index is outside the options of today's
  question, from a user who has not played today, is scored as a wrong answer, given that
  the question's correct index is inside its options. The response is a success with
  \<open>isCorrect\<close> false; the stored record has the streak 0, today as last played day, one
  more game played, the same number of correct answers, and a wrong answer recorded for
  today.
\<close>

theorem out_of_range_scored:
  assumes "fid_b body = Some f" and "f \<noteq> 0" and "answerIndex body = Some idx"
    and "getUser f s = (user, s1)"
    and "lastPlayed user \<noteq> Some (getTodayString (clock env))"
    and "getTodaysQuestion (questions env) (clock env) = Some q"
    and "0 \<le> correct q" and "correct q < int (length (options q))"
    and "idx < 0 \<or> int (length (options q)) \<le> idx"
  shows "\<exists>u' s2. post_api_answer env body s = (Success False (correct q) u' (funFact q), s2)
         \<and> map_of (loadUsers s2) f = Some u'
         \<and> currentStreak u' = 0
         \<and> lastPlayed u' = Some (getTodayString (clock env))
         \<and> lastCorrect u' = False
         \<and> totalPlayed u' = totalPlayed user + 1
         \<and> totalCorrect u' = totalCorrect user
         \<and> map_of (answers u') (getTodayString (clock env))
             = Some \<lparr> correct_a = False, date_a = getTodayString (clock env) \<rparr>"
proof -
  from assms(7-9) have ne: "idx \<noteq> correct q" by auto
  from post_scored [OF assms(1-6)] obtain u' where
    run: "post_api_answer env body s =
           (Success (idx = correct q) (correct q) u' (funFact q),
            Some (set_key f u' (loadUsers s1)))"
    and flds: "currentStreak u' =
             (if idx = correct q
              then (if lastPlayed user = Some (getYesterdayString (clock env)) \<and> lastCorrect user
                    then currentStreak user + 1 else 1)
              else 0)"
      "lastPlayed u' = Some (getTodayString (clock env))"
      "lastCorrect u' = (idx = correct q)"
      "totalPlayed u' = totalPlayed user + 1"
      "totalCorrect u' = totalCorrect user + (if idx = correct q then 1 else 0)"
      "answers u' = AList.update (getTodayString (clock env))
              \<lparr> correct_a = (idx = correct q), date_a = getTodayString (clock env) \<rparr> (answers user)"
    by blast
  have "map_of (loadUsers (Some (set_key f u' (loadUsers s1)))) f = Some u'"
    by (simp add: loadUsers_def map_of_set_key)
  with run flds ne show ?thesis by (simp add: update_conv')
qed

theorem out_of_range_scored_witness:
  "fid_b (example_body 9) = Some 7 \<and> (7::int) \<noteq> 0 \<and> answerIndex (example_body 9) = Some 9
   \<and> getUser 7 example_store = (example_user, example_store)
   \<and> lastPlayed example_user \<noteq> Some (getTodayString (clock example_env))
   \<and> getTodaysQuestion (questions example_env) (clock example_env) = Some example_question
   \<and> 0 \<le> correct example_question
   \<and> correct example_question < int (length (options example_question))
   \<and> ((9::int) < 0 \<or> int (length (options example_question)) \<le> 9)
   \<and> (\<exists>u' s2. post_api_answer example_env (example_body 9) example_store
         = (Success False 2 u' ''fact'', s2)
       \<and> map_of (loadUsers s2) 7 = Some u' \<and> currentStreak u' = 0 \<and> totalPlayed u' = 11)"
proof -
  have h: "fid_b (example_body 9) = Some 7" "(7::int) \<noteq> 0"
    "answerIndex (example_body 9) = Some 9"
    "getUser 7 example_store = (example_user, example_store)"
    "lastPlayed example_user \<noteq> Some (getTodayString (clock example_env))"
    "getTodaysQuestion (questions example_env) (clock example_env) = Some example_question"
    "0 \<le> correct example_question"
    "correct example_question < int (length (options example_question))"
    "(9::int) < 0 \<or> int (length (options example_question)) \<le> 9"
    by (simp_all add: example_getUser example_getTodaysQuestion)
      (simp_all add: example_defs)
  from out_of_range_scored [OF h] h show ?thesis
    by (auto simp add: example_question_def example_user_def example_today example_yesterday)
qed

section \<open>The question of the day\<close>

lemma smod_nonneg: "0 \<le> k \<Longrightarrow> 0 < l \<Longrightarrow> k smod l = k mod (l::int)"
  by (cases "k = 0") (simp_all add: signed_modulo_int_def)

lemma seed_nonneg: "calendar_date t \<Longrightarrow> 0 \<le> seed t"
  by (simp add: calendar_date_def seed_def)

text \<open>
  C5: for a catalog that is not empty and a calendar date, the question of the day is the
  catalog entry at the index \<open>(year * 10000 + month * 100 + day) mod size\<close>, where \<open>month\<close>
  counts from 1, and the index is inside the catalog; two readings of the clock with the
  same local date give the same question, whatever their time of day and zone.
\<close>

theorem question_of_the_day:
  assumes "qs \<noteq> []" and "calendar_date today"
  shows "getTodaysQuestion qs today =
           Some (qs ! nat ((getFullYear today * 10000 + (getMonth today + 1) * 100
                            + getDate today) mod int (length qs)))
         \<and> nat ((getFullYear today * 10000 + (getMonth today + 1) * 100 + getDate today)
                 mod int (length qs)) < length qs
         \<and> (\<forall>t. getFullYear t = getFullYear today \<and> getMonth t = getMonth today
                 \<and> getDate t = getDate today
               \<longrightarrow> getTodaysQuestion qs t = getTodaysQuestion qs today)"
proof -
  let ?n = "int (length qs)"
  from assms(1) have pos: "0 < ?n" by simp
  from seed_nonneg [OF assms(2)] pos have sm: "seed today smod ?n = seed today mod ?n"
    by (rule smod_nonneg)
  from pos have rng: "0 \<le> seed today mod ?n" "seed today mod ?n < ?n" by simp_all
  have a: "getTodaysQuestion qs today = Some (qs ! nat (seed today mod ?n))"
    using assms(1) sm rng by (simp add: getTodaysQuestion_def Let_def)
  have b: "nat (seed today mod ?n) < length qs" using rng by linarith
  have c: "getTodaysQuestion qs t = getTodaysQuestion qs today"
    if "getFullYear t = getFullYear today \<and> getMonth t = getMonth today
        \<and> getDate t = getDate today" for t
    using that by (simp add: getTodaysQuestion_def seed_def)
  from a b c show ?thesis unfolding seed_def by blast
qed

theorem question_of_the_day_witness:
  "example_catalog \<noteq> [] \<and> calendar_date example_clock
   \<and> getTodaysQuestion example_catalog example_clock = Some (example_question \<lparr> id_q := 2 \<rparr>)
   \<and> (2024 * 10000 + (6 + 1) * 100 + 1) mod 3 = (1::int)"
proof -
  have h: "example_catalog \<noteq> []" "calendar_date example_clock"
    by (simp_all add: example_catalog_def calendar_date_def example_clock_def
        month_lengths_def leap_year_def)
  from question_of_the_day [OF h] h show ?thesis
    by (simp add: example_catalog_def example_clock_def)
qed

section \<open>The leaderboard\<close>

lemma compareFn_le:
  "compareFn a b \<le> 0 \<longleftrightarrow>
     longestStreak b < longestStreak a
     \<or> (longestStreak a = longestStreak b \<and> totalCorrect b \<le> totalCorrect a)"
  by (auto simp: compareFn_def)

lemma set_insert_sorted: "set (insert_sorted x xs) = insert x (set xs)"
  by (induction xs) auto

lemma mset_insert_sorted: "mset (insert_sorted x xs) = add_mset x (mset xs)"
  by (induction xs) auto

lemma mset_sort_users: "mset (sort_users xs) = mset xs"
  by (induction xs) (simp_all add: mset_insert_sorted)

lemma length_sort_users: "length (sort_users xs) = length xs"
  using mset_sort_users [of xs] by (metis size_mset)

lemma set_sort_users: "set (sort_users xs) = set xs"
  using mset_sort_users [of xs] by (metis set_mset_mset)

lemma sorted_insert_sorted:
  "sorted_wrt (\<lambda>a b. compareFn a b \<le> 0) xs
   \<Longrightarrow> sorted_wrt (\<lambda>a b. compareFn a b \<le> 0) (insert_sorted x xs)"
proof (induction xs)
  case Nil
  then show ?case by simp
next
  case (Cons y ys)
  show ?case
  proof (cases "compareFn x y \<le> 0")
    case True
    have "compareFn x z \<le> 0" if "z \<in> set ys" for z
    proof -
      from Cons.prems that have "compareFn y z \<le> 0" by simp
      with True show ?thesis unfolding compareFn_le by linarith
    qed
    with True Cons.prems show ?thesis by simp
  next
    case False
    then have "compareFn y x \<le> 0" unfolding compareFn_le by linarith
    with False Cons show ?thesis by (auto simp: set_insert_sorted)
  qed
qed

lemma sorted_sort_users: "sorted_wrt (\<lambda>a b. compareFn a b \<le> 0) (sort_users xs)"
  by (induction xs) (simp_all add: sorted_insert_sorted)

lemma slice0_nonneg: "0 \<le> e \<Longrightarrow> slice0 xs e = take (nat e) xs"
  by (simp add: slice0_def Let_def min_def)

lemma slice0_neg: "slice0 xs (- int (Suc k)) = take (length xs - Suc k) xs"
proof -
  have "nat (max (int (length xs) + - int (Suc k)) 0) = length xs - Suc k" by linarith
  then show ?thesis by (simp add: slice0_def Let_def del: of_nat_Suc)
qed

lemma to_entry_ranks:
  "ranks_before (to_entry a) (to_entry b) \<longleftrightarrow> compareFn a b \<le> 0"
  by (simp add: ranks_before_def to_entry_def compareFn_le)

lemma sorted_entries:
  "sorted_wrt ranks_before (map to_entry (take n (sort_users xs)))"
proof -
  have "sorted_wrt (\<lambda>a b. compareFn a b \<le> 0) (take n (sort_users xs))"
    using sorted_sort_users by (rule sorted_wrt_take)
  then show ?thesis by (simp add: sorted_wrt_map to_entry_ranks)
qed

lemma take_drop_ranked:
  assumes "a \<in> set (take n (sort_users xs))" and "b \<in> set (drop n (sort_users xs))"
  shows "compareFn a b \<le> 0"
proof -
  have "sorted_wrt (\<lambda>a b. compareFn a b \<le> 0) (take n (sort_users xs) @ drop n (sort_users xs))"
    using sorted_sort_users by simp
  with assms show ?thesis unfolding sorted_wrt_append by blast
qed

lemma leaderboard_all:
  assumes "int (length (loadUsers s)) \<le> limit"
  shows "set (getLeaderboard limit s) = to_entry ` snd ` set (loadUsers s)"
proof -
  from assms have "0 \<le> limit" by linarith
  moreover from assms have "length (sort_users (map snd (loadUsers s))) \<le> nat limit"
    by (simp add: length_sort_users)
  ultimately show ?thesis
    by (simp add: getLeaderboard_def Let_def slice0_nonneg set_sort_users)
qed

text \<open>
  C6: for every store and every positive limit the leaderboard is sorted by streak
  descending, ties by total descending; it has at most \<open>limit\<close> entries; its entries are
  those of distinct stored records, in order, with \<open>streak\<close> the record's
  \<open>longestStreak\<close> and \<open>total\<close> its \<open>totalCorrect\<close>, and no record left out ranks above a
  record that is listed. The records with (longest streak, total correct) of (5, 10),
  (5, 12) and (3, 20) are listed as (5, 12), (5, 10), (3, 20).
\<close>

theorem leaderboard_ranking:
  assumes "0 < limit"
  shows "sorted_wrt ranks_before (getLeaderboard limit s)
         \<and> length (getLeaderboard limit s) \<le> nat limit
         \<and> (\<exists>us rest.
               mset (us @ rest) = mset (map snd (loadUsers s))
               \<and> getLeaderboard limit s =
                   map (\<lambda>u. \<lparr> fid_e = fid u, username_e = username u,
                               streak = longestStreak u, total = totalCorrect u \<rparr>) us
               \<and> (\<forall>a \<in> set us. \<forall>b \<in> set rest.
                     longestStreak b < longestStreak a
                     \<or> (longestStreak a = longestStreak b
                         \<and> totalCorrect b \<le> totalCorrect a)))
         \<and> getLeaderboard 10 example_board =
             [\<lparr> fid_e = 2, username_e = None, streak = 5, total = 12 \<rparr>,
              \<lparr> fid_e = 1, username_e = None, streak = 5, total = 10 \<rparr>,
              \<lparr> fid_e = 3, username_e = None, streak = 3, total = 20 \<rparr>]"
proof -
  let ?xs = "map snd (loadUsers s)"
  let ?n = "nat limit"
  from assms have gl: "getLeaderboard limit s = map to_entry (take ?n (sort_users ?xs))"
    by (simp add: getLeaderboard_def Let_def slice0_nonneg)
  have a: "sorted_wrt ranks_before (getLeaderboard limit s)"
    unfolding gl by (rule sorted_entries)
  have b: "length (getLeaderboard limit s) \<le> ?n" unfolding gl by simp
  have "mset (take ?n (sort_users ?xs) @ drop ?n (sort_users ?xs)) = mset ?xs"
    by (simp add: mset_sort_users)
  moreover have "getLeaderboard limit s =
      map (\<lambda>u. \<lparr> fid_e = fid u, username_e = username u,
                  streak = longestStreak u, total = totalCorrect u \<rparr>)
        (take ?n (sort_users ?xs))"
    unfolding gl by (simp add: to_entry_def)
  moreover have "\<forall>a \<in> set (take ?n (sort_users ?xs)). \<forall>b \<in> set (drop ?n (sort_users ?xs)).
      longestStreak b < longestStreak a
      \<or> (longestStreak a = longestStreak b \<and> totalCorrect b \<le> totalCorrect a)"
    using take_drop_ranked [of _ ?n ?xs] unfolding compareFn_le by blast
  ultimately have c: "\<exists>us rest.
               mset (us @ rest) = mset ?xs
               \<and> getLeaderboard limit s =
                   map (\<lambda>u. \<lparr> fid_e = fid u, username_e = username u,
                               streak = longestStreak u, total = totalCorrect u \<rparr>) us
               \<and> (\<forall>a \<in> set us. \<forall>b \<in> set rest.
                     longestStreak b < longestStreak a
                     \<or> (longestStreak a = longestStreak b
                         \<and> totalCorrect b \<le> totalCorrect a))"
    by blast
  have d: "getLeaderboard 10 example_board =
             [\<lparr> fid_e = 2, username_e = None, streak = 5, total = 12 \<rparr>,
              \<lparr> fid_e = 1, username_e = None, streak = 5, total = 10 \<rparr>,
              \<lparr> fid_e = 3, username_e = None, streak = 3, total = 20 \<rparr>]"
    by (simp add: getLeaderboard_def loadUsers_def example_board_def board_user_def
        new_user_def compareFn_def slice0_def to_entry_def)
  from a b c d show ?thesis by blast
qed

theorem leaderboard_ranking_witness:
  "(0::int) < 2
   \<and> getLeaderboard 2 example_board =
       [\<lparr> fid_e = 2, username_e = None, streak = 5, total = 12 \<rparr>,
        \<lparr> fid_e = 1, username_e = None, streak = 5, total = 10 \<rparr>]
   \<and> sorted_wrt ranks_before (getLeaderboard 2 example_board)
   \<and> length (getLeaderboard 2 example_board) \<le> nat 2"
proof -
  have h: "(0::int) < 2" by simp
  have e: "getLeaderboard 2 example_board =
       [\<lparr> fid_e = 2, username_e = None, streak = 5, total = 12 \<rparr>,
        \<lparr> fid_e = 1, username_e = None, streak = 5, total = 10 \<rparr>]"
    by (simp add: getLeaderboard_def loadUsers_def example_board_def board_user_def
        new_user_def compareFn_def slice0_def to_entry_def)
  from leaderboard_ranking [OF h, of example_board] e show ?thesis by simp
qed

text \<open>
  C7, as stated, fails for a negative limit: \<open>slice(0, -1)\<close> drops the last element, so with
  three records and the limit \<open>-1\<close> the leaderboard has two entries.
\<close>

theorem negative_limit_counterexample:
  "getLeaderboard (- 1) example_board =
     [\<lparr> fid_e = 2, username_e = None, streak = 5, total = 12 \<rparr>,
      \<lparr> fid_e = 1, username_e = None, streak = 5, total = 10 \<rparr>]"
  by (simp add: getLeaderboard_def loadUsers_def example_board_def board_user_def
      new_user_def compareFn_def slice0_def to_entry_def)

text \<open>
  C7, amended: the leaderboard is empty when the store has no records, for any limit, and
  when the limit is 0; for a negative limit \<open>-k\<close> it is the full ranking without its last
  \<open>k\<close> entries.
\<close>

theorem leaderboard_empty_cases:
  "getLeaderboard limit None = []
   \<and> getLeaderboard limit (Some []) = []
   \<and> getLeaderboard 0 s = []
   \<and> getLeaderboard (- int (Suc k)) s =
       take (length (loadUsers s) - Suc k) (getLeaderboard (int (length (loadUsers s))) s)"
proof -
  have "getLeaderboard (- int (Suc k)) s =
       take (length (loadUsers s) - Suc k) (getLeaderboard (int (length (loadUsers s))) s)"
    unfolding getLeaderboard_def Let_def slice0_neg
    by (simp add: slice0_nonneg length_sort_users take_map)
  then show ?thesis
    by (simp add: getLeaderboard_def loadUsers_def slice0_def)
qed

section \<open>The question number\<close>

text \<open>
  On a host whose offset from UTC is the same now as at the start of the year, the question
  number is the day of the year.
\<close>

lemma question_number_constant_offset:
  assumes "99 < getFullYear t" and "0 \<le> msOfDay t" and "msOfDay t < oneDay"
    and "utcOffset t = utcOffsetYearStart t"
  shows "getQuestionNumber t = day_of_year t"
proof -
  from assms(1) have y: "two_digit_year (getFullYear t) = getFullYear t"
    by (simp add: two_digit_year_def)
  have "getTime t - (MakeDay (getFullYear t) 0 0 * oneDay - utcOffsetYearStart t)
          = day_of_year t * oneDay + msOfDay t"
    using assms(4) by (simp add: getTime_def MakeDay_def day_of_year_def algebra_simps)
  moreover have "(day_of_year t * oneDay + msOfDay t) div oneDay = day_of_year t"
    using assms(2,3) by (simp add: oneDay_def)
  ultimately show ?thesis by (simp add: getQuestionNumber_def Let_def y)
qed

text \<open>
  C8: the question number is meant to be the day of the year, and the code misses it on a
  host with daylight saving time. In New York on 1 July 2024 at 00:30, day 183 of the
  year, the instant denoted by \<open>new Date(2024, 0, 0)\<close> is 183 days less half an hour
  back, because the zone is one hour further from UTC in winter, and the question number
  is 182; it is 182 as well on 30 June at 23:30, so two dates of one year have the same
  number.
\<close>

theorem question_number_dst:
  "getQuestionNumber new_york_july_1 = 182 \<and> day_of_year new_york_july_1 = 183
   \<and> getQuestionNumber new_york_june_30 = 182 \<and> day_of_year new_york_june_30 = 182"
  by (simp add: getQuestionNumber_def getTime_def MakeDay_def DayFromYear_def oneDay_def
      two_digit_year_def month_lengths_def leap_year_def day_of_year_def
      new_york_july_1_def new_york_june_30_def)

section \<open>The presence check on the user id\<close>

text \<open>
  C9: a body whose \<open>fid\<close> is 0 is answered with the missing-fields error whatever the answer
  index, name, clock, catalog and store are, and the store is left as it was; so no
  request with the id 0 is ever scored.
\<close>

theorem fid_zero_rejected:
  "post_api_answer env \<lparr> fid_b = Some 0, username_b = un, answerIndex = Some idx \<rparr> s
     = (MissingFields, s)"
  by (simp add: post_api_answer_def)

section \<open>A user who never played\<close>

text \<open>
  C10: \<open>GET /api/user/:fid\<close> for an id without a record answers with the zeroed record and
  saves it: afterwards the store file exists, holds the zeroed record under the id, and
  holds every other record as before. The leaderboard takes the record like any other:
  whenever the limit exceeds the number of records stored before, the entry of the new
  user, with streak 0 and total 0, is on the leaderboard.
\<close>

theorem new_user_ranked:
  assumes "map_of (loadUsers s) f = None"
  shows "\<exists>q n s'.
           get_api_user env (Some f) s =
             (UserOk \<lparr> fid = f, username = None, currentStreak = 0, longestStreak = 0,
                       lastPlayed = None, lastCorrect = False, totalPlayed = 0,
                       totalCorrect = 0, answers = [] \<rparr> False None q n, s')
         \<and> s' \<noteq> None
         \<and> map_of (loadUsers s') f =
             Some \<lparr> fid = f, username = None, currentStreak = 0, longestStreak = 0,
                    lastPlayed = None, lastCorrect = False, totalPlayed = 0,
                    totalCorrect = 0, answers = [] \<rparr>
         \<and> (\<forall>k. k \<noteq> f \<longrightarrow> map_of (loadUsers s') k = map_of (loadUsers s) k)
         \<and> (\<forall>limit. int (length (loadUsers s)) < limit \<longrightarrow>
               \<lparr> fid_e = f, username_e = None, streak = 0, total = 0 \<rparr>
                 \<in> set (getLeaderboard limit s'))"
proof -
  let ?s' = "Some (set_key f (new_user f) (loadUsers s))"
  from assms have g: "getUser f s = (new_user f, ?s')"
    by (simp add: getUser_def Let_def saveUsers_def)
  then have run: "get_api_user env (Some f) s =
      (UserOk (new_user f) False None (getTodaysQuestion (questions env) (clock env))
         (getQuestionNumber (clock env)), ?s')"
    by (simp add: get_api_user_def Let_def new_user_def)
  have stored: "map_of (loadUsers ?s') f = Some (new_user f)"
    by (simp add: loadUsers_def map_of_set_key)
  have others: "\<forall>k. k \<noteq> f \<longrightarrow> map_of (loadUsers ?s') k = map_of (loadUsers s) k"
    by (simp add: loadUsers_def map_of_set_key)
  have len: "length (loadUsers ?s') = Suc (length (loadUsers s))"
    using assms by (simp add: loadUsers_def set_key_def length_insert_key)
  have ranked: "\<lparr> fid_e = f, username_e = None, streak = 0, total = 0 \<rparr>
                 \<in> set (getLeaderboard limit ?s')"
    if "int (length (loadUsers s)) < limit" for limit
  proof -
    from that len have "int (length (loadUsers ?s')) \<le> limit" by simp
    from leaderboard_all [OF this] have
      "set (getLeaderboard limit ?s') = to_entry ` snd ` set (loadUsers ?s')" .
    moreover from stored have "(f, new_user f) \<in> set (loadUsers ?s')"
      by (rule map_of_SomeD)
    then have "to_entry (new_user f) \<in> to_entry ` snd ` set (loadUsers ?s')"
      by force
    ultimately show ?thesis by (simp add: to_entry_def new_user_def)
  qed
  from run stored others ranked show ?thesis
    unfolding new_user_def by blast
qed

text \<open>
  With one stored user who has played (a wrong answer), the record created for the id 3
  takes the only place of a leaderboard of limit 1.
\<close>

theorem new_user_ranked_witness:
  "map_of (loadUsers example_played_store) 3 = None
   \<and> snd (get_api_user example_env (Some 3) example_played_store)
       = Some ((3, new_user 3) # loadUsers example_played_store)
   \<and> getLeaderboard 1 (snd (get_api_user example_env (Some 3) example_played_store))
       = [\<lparr> fid_e = 3, username_e = None, streak = 0, total = 0 \<rparr>]
   \<and> \<lparr> fid_e = 3, username_e = None, streak = 0, total = 0 \<rparr>
       \<in> set (get_api_leaderboard
                (snd (get_api_user example_env (Some 3) example_played_store)))"
proof -
  have h: "map_of (loadUsers example_played_store) 3 = None"
    by (simp add: example_played_store_def loadUsers_def)
  have r: "snd (get_api_user example_env (Some 3) example_played_store)
       = Some ((3, new_user 3) # loadUsers example_played_store)"
    by (simp add: get_api_user_def getUser_def Let_def saveUsers_def set_key_def
        is_array_index_def loadUsers_def example_played_store_def)
  have l: "getLeaderboard 1 (Some ((3, new_user 3) # loadUsers example_played_store))
       = [\<lparr> fid_e = 3, username_e = None, streak = 0, total = 0 \<rparr>]"
    by (simp add: getLeaderboard_def loadUsers_def example_played_store_def new_user_def
        compareFn_def slice0_def to_entry_def)
  from new_user_ranked [OF h, of example_env] h r l show ?thesis
    by (auto simp add: loadUsers_def example_played_store_def get_api_leaderboard_def)
qed

end
